theory Spec2Isabelle
  imports
    Main
    "HOL-Library.AList"
    "HOL-Library.List_Lexorder"
    "HOL-Library.Product_Lexorder"
    "HOL-Library.Multiset"
begin

section \<open>Upcoming bus arrivals per stop: an embedding of \<^verbatim>\<open>main.py\<close>\<close>

text \<open>
  The development follows \<^verbatim>\<open>src/main.py\<close>: the reference tables built at import time
  (\<^verbatim>\<open>routes_dict\<close>, \<^verbatim>\<open>trips_dict\<close>), the timetable reader and resolver
  \<^verbatim>\<open>get_scheduled_arrivals\<close>, and the request handler \<^verbatim>\<open>bus_stops\<close> with its
  live branch and its \<^verbatim>\<open>except Exception\<close> branch.

  Conventions.
  \<^item> A Python \<^verbatim>\<open>str\<close> is the list of its Unicode code points (type \<open>str\<close>). Python
    compares strings code point by code point, which is the lexicographic order of
    \<open>HOL-Library.List_Lexorder\<close> over the natural numbers; tuples compare component by
    component (\<open>HOL-Library.Product_Lexorder\<close>). A string literal of the program is
    written \<open>lit ''...''\<close>.
  \<^item> A Python \<^verbatim>\<open>dict\<close> is an association list with distinct keys, in insertion order.
    The keys of the inner dictionaries of the reference tables are literals of the
    program (\<^verbatim>\<open>"route_number"\<close>, \<^verbatim>\<open>"route_id"\<close>, ...) and are kept as HOL strings.
  \<^item> An exception is a value \<open>Inl e\<close> of a sum type.
  \<^item> What the process reads from outside (the clock, the host's time zone rules, the
    Unicode database of the interpreter, the files, the decoded feed) is a parameter.
\<close>

subsection \<open>Strings, exceptions and dictionaries\<close>

type_synonym str = "nat list"

definition lit :: "string \<Rightarrow> str" where
  "lit s = map of_char s"

datatype error = KeyError | IndexError | ValueError | OverflowError | RequestException | DecodeError

type_synonym ('k, 'v) dict = "('k \<times> 'v) list"

text \<open>\<^verbatim>\<open>d.get(k, default)\<close>\<close>

definition get :: "('k, 'v) dict \<Rightarrow> 'k \<Rightarrow> 'v \<Rightarrow> 'v" where
  "get d k dflt = (case map_of d k of None \<Rightarrow> dflt | Some v \<Rightarrow> v)"

text \<open>\<^verbatim>\<open>d[k]\<close>, which raises \<^verbatim>\<open>KeyError\<close> on a missing key\<close>

definition subscript :: "('k, 'v) dict \<Rightarrow> 'k \<Rightarrow> error + 'v" where
  "subscript d k = (case map_of d k of None \<Rightarrow> Inl KeyError | Some v \<Rightarrow> Inr v)"

text \<open>
  \<^verbatim>\<open>if k not in d: d[k] = []\<close> followed by \<^verbatim>\<open>d[k].append(x)\<close>: a new key goes to the end
  of the dictionary, an existing key keeps its place.
\<close>

definition append_at :: "'k \<Rightarrow> 'v \<Rightarrow> ('k, 'v list) dict \<Rightarrow> ('k, 'v list) dict" where
  "append_at k x d = AList.map_default k [x] (\<lambda>xs. xs @ [x]) d"

subsection \<open>Reference tables (lines 20-54)\<close>

text \<open>
  A reference table: from an id to an inner dictionary, whose keys are literals of the
  program.
\<close>

type_synonym table = "(str, (string, str) dict) dict"

text \<open>
  One object of \<^verbatim>\<open>routes.json\<close>. \<^verbatim>\<open>route["route_id"]\<close> is read through \<^verbatim>\<open>str\<close>; the two
  names are read with \<^verbatim>\<open>.get\<close> and may be absent. Each value is held as the text that
  \<^verbatim>\<open>str\<close> and an f-string give for it.
\<close>

record route =
  route_id :: str
  route_short_name :: "str option"
  route_long_name :: "str option"

text \<open>
  The dict comprehension of lines 26-32: a later object with the same id replaces the
  value of an earlier one. \<open>None\<close> stands for a file that cannot be opened or parsed
  (the \<^verbatim>\<open>except\<close> of line 33).
\<close>

definition routes_dict :: "route list option \<Rightarrow> table" where
  "routes_dict routes_data =
     (case routes_data of
        None \<Rightarrow> []
      | Some routes \<Rightarrow>
          fold (\<lambda>route d. AList.update (route.route_id route)
                  [(''route_number'',
                      (case route_short_name route of None \<Rightarrow> lit ''Unknown'' | Some v \<Rightarrow> v)),
                   (''route_name'',
                      (case route_long_name route of None \<Rightarrow> lit ''Unknown'' | Some v \<Rightarrow> v))] d)
               routes [])"

record trip =
  trip_id :: str
  route_id :: str
  trip_headsign :: str

definition trips_dict :: "trip list option \<Rightarrow> table" where
  "trips_dict trips_data =
     (case trips_data of
        None \<Rightarrow> []
      | Some trips \<Rightarrow>
          fold (\<lambda>trip d. AList.update (trip.trip_id trip)
                  [(''route_id'', trip.route_id trip), (''trip_headsign'', trip_headsign trip)] d)
               trips [])"

subsection \<open>Decimal digits\<close>

text \<open>The code points of \<^verbatim>\<open>0\<close> to \<^verbatim>\<open>9\<close>.\<close>

definition ascii_digit :: "nat \<Rightarrow> bool" where
  "ascii_digit c = (48 \<le> c \<and> c \<le> 57)"

text \<open>
  The digits that \<^verbatim>\<open>\d\<close> matches in a \<^verbatim>\<open>str\<close> pattern and that \<^verbatim>\<open>int\<close> reads: every
  Unicode decimal digit, of any script. \<open>uni c\<close> is the decimal value that the Unicode
  database of the interpreter gives the code point \<open>c\<close> outside ASCII, and \<open>None\<close> when it
  is no decimal digit; the database comes from outside the program. Within ASCII the
  decimal digits are \<^verbatim>\<open>0\<close> to \<^verbatim>\<open>9\<close>.
\<close>

definition decimal_value :: "(nat \<Rightarrow> nat option) \<Rightarrow> nat \<Rightarrow> nat option" where
  "decimal_value uni c =
     (if ascii_digit c then Some (c - 48) else if c < 128 then None else uni c)"

definition digit :: "(nat \<Rightarrow> nat option) \<Rightarrow> nat \<Rightarrow> bool" where
  "digit uni c = (case decimal_value uni c of None \<Rightarrow> False | Some v \<Rightarrow> True)"

subsection \<open>Times of day\<close>

text \<open>The shape \<^verbatim>\<open>\d{2}:\d{2}:\d{2}\<close>; 58 is the colon.\<close>

fun hhmmss :: "(nat \<Rightarrow> nat option) \<Rightarrow> str \<Rightarrow> bool" where
  "hhmmss uni [h1, h2, c1, m1, m2, c2, s1, s2] =
     (digit uni h1 \<and> digit uni h2 \<and> c1 = 58 \<and> digit uni m1 \<and> digit uni m2 \<and> c2 = 58
      \<and> digit uni s1 \<and> digit uni s2)"
| "hhmmss uni _ = False"

text \<open>
  \<^verbatim>\<open>time_pattern.match(s)\<close> for \<^verbatim>\<open>^\d{2}:\d{2}:\d{2}$\<close> (line 63). In Python \<^verbatim>\<open>$\<close> also
  matches just before a newline (code point 10) that ends the string.
\<close>

definition time_pattern_match :: "(nat \<Rightarrow> nat option) \<Rightarrow> str \<Rightarrow> bool" where
  "time_pattern_match uni s =
     (hhmmss uni s \<or> (length s = 9 \<and> last s = 10 \<and> hhmmss uni (butlast s)))"

text \<open>Splitting at colons: the fields of \<open>a:b:c\<close>.\<close>

fun split_colons :: "str \<Rightarrow> str list" where
  "split_colons [] = [[]]"
| "split_colons (c # cs) =
     (if c = 58 then [] # split_colons cs
      else (case split_colons cs of f # fs \<Rightarrow> (c # f) # fs | [] \<Rightarrow> [[c]]))"

text \<open>
  What the directives of \<^verbatim>\<open>strptime\<close> read of a field. Their regular expressions are
  \<^verbatim>\<open>2[0-3]|[0-1]\d|\d\<close> for \<^verbatim>\<open>%H\<close>, \<^verbatim>\<open>[0-5]\d|\d\<close> for \<^verbatim>\<open>%M\<close> and
  \<^verbatim>\<open>6[0-1]|[0-5]\d|\d\<close> for \<^verbatim>\<open>%S\<close>: the first of two characters is an ASCII digit of
  the range that the expression names; the second, or the only one, is any decimal digit,
  except after \<open>2\<close> in the hour and after \<open>6\<close> in the second, where it is an ASCII digit
  of the range named. The value is what \<^verbatim>\<open>int\<close> gives for the field.
\<close>

fun hour_field :: "(nat \<Rightarrow> nat option) \<Rightarrow> str \<Rightarrow> nat option" where
  "hour_field uni [a] = decimal_value uni a"
| "hour_field uni [a, b] =
     (if a = 50 \<and> 48 \<le> b \<and> b \<le> 51 then Some (20 + (b - 48))
      else if a = 48 \<or> a = 49 then map_option (\<lambda>v. 10 * (a - 48) + v) (decimal_value uni b)
      else None)"
| "hour_field uni _ = None"

fun minute_field :: "(nat \<Rightarrow> nat option) \<Rightarrow> str \<Rightarrow> nat option" where
  "minute_field uni [a] = decimal_value uni a"
| "minute_field uni [a, b] =
     (if 48 \<le> a \<and> a \<le> 53 then map_option (\<lambda>v. 10 * (a - 48) + v) (decimal_value uni b)
      else None)"
| "minute_field uni _ = None"

fun second_field :: "(nat \<Rightarrow> nat option) \<Rightarrow> str \<Rightarrow> nat option" where
  "second_field uni [a] = decimal_value uni a"
| "second_field uni [a, b] =
     (if a = 54 \<and> (b = 48 \<or> b = 49) then Some (60 + (b - 48))
      else if 48 \<le> a \<and> a \<le> 53 then map_option (\<lambda>v. 10 * (a - 48) + v) (decimal_value uni b)
      else None)"
| "second_field uni _ = None"

text \<open>
  \<^verbatim>\<open>datetime.strptime(s, "%H:%M:%S")\<close>: the whole string must be hour, minute and second,
  as the directives read them, separated by colons, and the \<^verbatim>\<open>datetime\<close> constructor
  takes an hour up to 23, a minute up to 59 and a second up to 59 (it refuses the seconds
  60 and 61 that \<^verbatim>\<open>%S\<close> reads). Every failure is a \<^verbatim>\<open>ValueError\<close>. The result is the
  time of day of the naive datetime, in seconds since midnight.
\<close>

definition strptime :: "(nat \<Rightarrow> nat option) \<Rightarrow> str \<Rightarrow> error + nat" where
  "strptime uni s =
     (case split_colons s of
        [h, m, sec] \<Rightarrow>
          (case (hour_field uni h, minute_field uni m, second_field uni sec) of
             (Some H, Some M, Some S) \<Rightarrow>
               if H \<le> 23 \<and> M \<le> 59 \<and> S \<le> 59 then Inr (3600 * H + 60 * M + S)
               else Inl ValueError
           | _ \<Rightarrow> Inl ValueError)
      | _ \<Rightarrow> Inl ValueError)"

subsection \<open>The host\<close>

text \<open>
  What the program reads of its host. Instants are microseconds since the epoch.
  \<open>current_time\<close> is \<^verbatim>\<open>datetime.now(CYPRUS_TZ)\<close>. \<open>today_at s\<close> is the instant of
  \<^verbatim>\<open>naive.replace(year, month, day).astimezone(CYPRUS_TZ)\<close> for the naive time of day \<open>s\<close>
  (seconds since midnight): the calendar date is the one \<open>current_time\<close> has in
  Asia/Nicosia, and \<^verbatim>\<open>astimezone\<close> reads a naive datetime as wall-clock time of the
  host's own zone. \<open>decimal\<close> is the interpreter's table of the decimal digits outside
  ASCII.
\<close>

record host =
  current_time :: int
  today_at :: "nat \<Rightarrow> int"
  decimal :: "nat \<Rightarrow> nat option"

definition timedelta_days :: "int \<Rightarrow> int" where
  "timedelta_days d = d * 86400000000"

subsection \<open>The timetable reader (lines 65-109)\<close>

record row =
  stop_id :: str
  trip_id :: str
  arrival_time :: str

text \<open>The f-string of lines 88, 181 and 183.\<close>

definition display :: "str \<Rightarrow> str \<Rightarrow> str \<Rightarrow> str \<Rightarrow> str" where
  "display route_number route_name ident t =
     route_number @ lit '' - '' @ route_name @ lit '' - '' @ ident @ lit '' - '' @ t"

text \<open>
  The two dictionaries the reader fills: \<^verbatim>\<open>stop_schedule\<close>, per stop the tuples
  \<^verbatim>\<open>(arrival_time, display)\<close>, and \<^verbatim>\<open>tomorrow_buses\<close>, per stop the tuples
  \<^verbatim>\<open>(instant, display)\<close>.
\<close>

record schedules =
  stop_schedule :: "(str, (str \<times> str) list) dict"
  tomorrow_buses :: "(str, (int \<times> str) list) dict"

text \<open>
  The body of the loop over the rows (lines 75-106). \<^verbatim>\<open>continue\<close> leaves the
  dictionaries as they are; an exception leaves the loop.
\<close>

definition process_row :: "table \<Rightarrow> table \<Rightarrow> host \<Rightarrow> row \<Rightarrow> schedules \<Rightarrow> error + schedules" where
  "process_row routes trips hst r st =
     (let stop_id = row.stop_id r; trip_id = row.trip_id r; arrival_time = row.arrival_time r in
      if \<not> time_pattern_match (decimal hst) arrival_time then Inr st
      else
        let route_id = get (get trips trip_id []) ''route_id'' (lit ''Unknown'');
            route_info = get routes route_id
                           [(''route_number'', lit ''Unknown''), (''route_name'', lit ''Unknown'')]
        in case subscript route_info ''route_number'' of
             Inl e \<Rightarrow> Inl e
           | Inr route_number \<Rightarrow>
         (case subscript route_info ''route_name'' of
             Inl e \<Rightarrow> Inl e
           | Inr route_name \<Rightarrow>
         (let schedule_entry = (arrival_time, display route_number route_name trip_id arrival_time)
          in case strptime (decimal hst) arrival_time of
               Inl e \<Rightarrow> Inl e
             | Inr tod \<Rightarrow>
                 (let arrival_datetime = today_at hst tod in
                  if arrival_datetime \<ge> current_time hst
                  then Inr (st\<lparr>stop_schedule := append_at stop_id schedule_entry (stop_schedule st)\<rparr>)
                  else Inr (st\<lparr>tomorrow_buses :=
                              append_at stop_id (arrival_datetime + timedelta_days 1, snd schedule_entry)
                                (tomorrow_buses st)\<rparr>)))))"

text \<open>
  The loop over the rows of one file. The \<^verbatim>\<open>try\<close> of line 70 encloses the whole loop,
  so the first exception ends the reading of the file; what earlier rows added stays.
  The result carries the exception that line 108 catches, if any.
\<close>

fun read_rows :: "table \<Rightarrow> table \<Rightarrow> host \<Rightarrow> row list \<Rightarrow> schedules \<Rightarrow> error option \<times> schedules" where
  "read_rows routes trips hst [] st = (None, st)"
| "read_rows routes trips hst (r # rs) st =
     (case process_row routes trips hst r st of
        Inl e \<Rightarrow> (Some e, st)
      | Inr st' \<Rightarrow> read_rows routes trips hst rs st')"

text \<open>
  The loop over \<^verbatim>\<open>STOP_TIMES_FILES\<close>. A file is the list of its rows, or \<open>None\<close> when
  \<^verbatim>\<open>os.path.exists\<close> is false (skipped with a warning). The handler of line 108 prints
  and goes on to the next file.
\<close>

fun read_files :: "table \<Rightarrow> table \<Rightarrow> host \<Rightarrow> row list option list \<Rightarrow> schedules \<Rightarrow> schedules" where
  "read_files routes trips hst [] st = st"
| "read_files routes trips hst (None # files) st = read_files routes trips hst files st"
| "read_files routes trips hst (Some rows # files) st =
     read_files routes trips hst files (snd (read_rows routes trips hst rows st))"

subsection \<open>The resolver (lines 111-122)\<close>

text \<open>
  After line 118 a stop's list holds tuples (today's entries) followed by plain strings
  (tomorrow's, already projected to their display string).
\<close>

datatype entry = Tuple str str | Str str

text \<open>
  \<^verbatim>\<open>entry[1]\<close> of line 122. On a tuple it is the display string. On a \<^verbatim>\<open>str\<close> it is the
  string made of its second character, and an \<^verbatim>\<open>IndexError\<close> when there is none.
\<close>

fun item1 :: "entry \<Rightarrow> error + str" where
  "item1 (Tuple t d) = Inr d"
| "item1 (Str s) = (if 1 < length s then Inr [s ! 1] else Inl IndexError)"

text \<open>The body of the loop of lines 112-120 for one stop.\<close>

definition limit_stop ::
  "(str, (int \<times> str) list) dict \<Rightarrow> str \<Rightarrow> (str \<times> str) list \<Rightarrow> entry list" where
  "limit_stop tomorrow sid arrivals =
     (let today = map (\<lambda>(t, d). Tuple t d) (take 5 (sort arrivals));
          filled =
            (case map_of tomorrow sid of
               Some buses \<Rightarrow>
                 if length today < 5
                 then today @ map (\<lambda>e. Str (snd e)) (take (5 - length today) (sort buses))
                 else today
             | None \<Rightarrow> today)
      in take 5 filled)"

text \<open>The list comprehension \<^verbatim>\<open>[entry[1] for entry in arrivals]\<close>.\<close>

fun items1 :: "entry list \<Rightarrow> error + str list" where
  "items1 [] = Inr []"
| "items1 (e # es) =
     (case item1 e of
        Inl err \<Rightarrow> Inl err
      | Inr s \<Rightarrow> (case items1 es of Inl err \<Rightarrow> Inl err | Inr ss \<Rightarrow> Inr (s # ss)))"

text \<open>The dict comprehension of line 122.\<close>

fun project :: "(str, entry list) dict \<Rightarrow> error + (str, str list) dict" where
  "project [] = Inr []"
| "project ((sid, arrivals) # rest) =
     (case items1 arrivals of
        Inl err \<Rightarrow> Inl err
      | Inr ss \<Rightarrow> (case project rest of Inl err \<Rightarrow> Inl err | Inr d \<Rightarrow> Inr ((sid, ss) # d)))"

definition get_scheduled_arrivals ::
  "table \<Rightarrow> table \<Rightarrow> host \<Rightarrow> row list option list \<Rightarrow> error + (str, str list) dict" where
  "get_scheduled_arrivals routes trips hst files =
     (let st = read_files routes trips hst files \<lparr>stop_schedule = [], tomorrow_buses = []\<rparr>;
          limited = map (\<lambda>(sid, arrivals). (sid, limit_stop (tomorrow_buses st) sid arrivals))
                        (stop_schedule st)
      in project limited)"

subsection \<open>The decoded feed\<close>

text \<open>
  What \<^verbatim>\<open>bus_stops\<close> reads of a decoded \<^verbatim>\<open>FeedMessage\<close>.
  \<^item> \<open>arrival\<close> of a stop-time update is \<open>None\<close> when \<^verbatim>\<open>HasField("arrival")\<close> is false, and
    otherwise the arrival event; the event's \<open>time\<close> is \<open>None\<close> when the event sets no
    time (an arrival that gives a delay only), and then \<^verbatim>\<open>arrival.time\<close> reads as 0.
  \<^item> \<open>vehicle\<close> of a trip update is \<open>None\<close> when \<^verbatim>\<open>HasField("vehicle")\<close> is false, and
    otherwise what \<^verbatim>\<open>vehicle.id\<close> reads (the empty string when the descriptor sets no id).
  \<^item> \<open>route_id\<close> of a trip update is what \<^verbatim>\<open>trip.route_id\<close> reads.
  \<^item> \<open>trip_update\<close> of an entity is \<open>None\<close> when \<^verbatim>\<open>HasField("trip_update")\<close> is false.
\<close>

record stop_time_event =
  time :: "int option"

text \<open>\<^verbatim>\<open>arrival.time\<close>, in seconds since the epoch: an unset field reads as its default, 0.\<close>

definition event_time :: "stop_time_event \<Rightarrow> int" where
  "event_time ev = (case time ev of None \<Rightarrow> 0 | Some t \<Rightarrow> t)"

record stop_time_update =
  stop_id :: str
  arrival :: "stop_time_event option"

record trip_update =
  route_id :: str
  vehicle :: "str option"
  stop_time_update :: "stop_time_update list"

record entity =
  trip_update :: "trip_update option"

subsection \<open>Rendering an epoch time (line 178)\<close>

text \<open>The range of \<^verbatim>\<open>datetime\<close>: the years 1 to 9999, in seconds since the epoch.\<close>

definition min_epoch :: int where
  "min_epoch = - 62135596800"

definition max_epoch :: int where
  "max_epoch = 253402300799"

text \<open>
  \<^verbatim>\<open>datetime.fromtimestamp(t, CYPRUS_TZ)\<close>. \<open>utcoffset t\<close> is the offset of Asia/Nicosia
  from UTC at the instant \<open>t\<close>, in seconds; the zone's rules come from outside the program.
  The call raises when the UTC datetime or the local one leaves the range of
  \<^verbatim>\<open>datetime\<close> (\<^verbatim>\<open>ValueError\<close>, \<^verbatim>\<open>OverflowError\<close> or \<^verbatim>\<open>OSError\<close> according to how far;
  one constructor stands for the three, which \<^verbatim>\<open>except Exception\<close> does not tell apart).
  Only the time of day of the result is read afterwards: the result is the local
  wall-clock time in seconds since midnight.
\<close>

definition fromtimestamp :: "(int \<Rightarrow> int) \<Rightarrow> int \<Rightarrow> error + nat" where
  "fromtimestamp utcoffset t =
     (if t < min_epoch \<or> max_epoch < t then Inl OverflowError
      else
        let local = t + utcoffset t in
        if local < min_epoch \<or> max_epoch < local then Inl OverflowError
        else Inr (nat (local mod 86400)))"

text \<open>
  \<^verbatim>\<open>%02d\<close> of a number below 100, which hours, minutes and seconds are: two ASCII digits
  (48 is the code point of \<^verbatim>\<open>0\<close>).
\<close>

definition two_digits :: "nat \<Rightarrow> str" where
  "two_digits n = [48 + n div 10 mod 10, 48 + n mod 10]"

text \<open>\<^verbatim>\<open>strftime("%H:%M:%S")\<close> of a time of day given in seconds since midnight.\<close>

definition strftime :: "nat \<Rightarrow> str" where
  "strftime s =
     two_digits (s div 3600) @ lit '':'' @ two_digits (s div 60 mod 60) @ lit '':''
       @ two_digits (s mod 60)"

text \<open>The conditional expression of line 178.\<close>

definition arrival_string :: "(int \<Rightarrow> int) \<Rightarrow> stop_time_update \<Rightarrow> error + str" where
  "arrival_string utcoffset stop_time =
     (case arrival stop_time of
        None \<Rightarrow> Inr (lit ''N/A'')
      | Some ev \<Rightarrow>
          (case fromtimestamp utcoffset (event_time ev) of
             Inl e \<Rightarrow> Inl e
           | Inr s \<Rightarrow> Inr (strftime s)))"

subsection \<open>The live branch of \<^verbatim>\<open>bus_stops\<close> (lines 167-183)\<close>

text \<open>The inner loop over \<^verbatim>\<open>trip_update.stop_time_update\<close> (lines 176-183).\<close>

fun add_stop_times ::
  "(int \<Rightarrow> int) \<Rightarrow> str \<Rightarrow> str \<Rightarrow> str \<Rightarrow> stop_time_update list
    \<Rightarrow> (str, str list) dict \<Rightarrow> error + (str, str list) dict" where
  "add_stop_times utcoffset route_number route_name vehicle_id [] trip_updates = Inr trip_updates"
| "add_stop_times utcoffset route_number route_name vehicle_id (stop_time # rest) trip_updates =
     (case arrival_string utcoffset stop_time of
        Inl e \<Rightarrow> Inl e
      | Inr a \<Rightarrow>
          add_stop_times utcoffset route_number route_name vehicle_id rest
            (append_at (stop_time_update.stop_id stop_time)
               (display route_number route_name vehicle_id a) trip_updates))"

text \<open>The outer loop over \<^verbatim>\<open>feed.entity\<close> (lines 168-183).\<close>

fun collect_trip_updates ::
  "table \<Rightarrow> (int \<Rightarrow> int) \<Rightarrow> entity list \<Rightarrow> (str, str list) dict
    \<Rightarrow> error + (str, str list) dict" where
  "collect_trip_updates routes utcoffset [] trip_updates = Inr trip_updates"
| "collect_trip_updates routes utcoffset (e # es) trip_updates =
     (case entity.trip_update e of
        None \<Rightarrow> collect_trip_updates routes utcoffset es trip_updates
      | Some tu \<Rightarrow>
          (let rid = trip_update.route_id tu;
               vehicle_id = (case vehicle tu of None \<Rightarrow> lit ''Unknown'' | Some v \<Rightarrow> v);
               route_number = get (get routes rid []) ''route_short_name'' (lit ''Unknown'');
               route_name = get (get routes rid []) ''route_long_name'' (lit ''Unknown'')
           in case add_stop_times utcoffset route_number route_name vehicle_id
                     (trip_update.stop_time_update tu) trip_updates of
                Inl err \<Rightarrow> Inl err
              | Inr trip_updates' \<Rightarrow> collect_trip_updates routes utcoffset es trip_updates'))"

subsection \<open>The handler \<^verbatim>\<open>bus_stops\<close> (lines 159-194)\<close>

text \<open>
  A stop of \<^verbatim>\<open>stops.json\<close>: its \<^verbatim>\<open>stop_id\<close> (a string, as the stop ids of the timetable
  and of the feed are), the field \<^verbatim>\<open>upcoming_buses\<close> that the handler assigns (it holds
  what the last request left there), and every other field in the extension part of the
  record.
\<close>

record stop =
  stop_id :: str
  upcoming_buses :: "str list"

text \<open>
  The feed as the handler receives it: the decoded entities, or the exception of
  \<^verbatim>\<open>requests.get\<close>, \<^verbatim>\<open>raise_for_status\<close> or \<^verbatim>\<open>ParseFromString\<close>.
\<close>

definition live_trip_updates ::
  "table \<Rightarrow> (int \<Rightarrow> int) \<Rightarrow> error + entity list \<Rightarrow> error + (str, str list) dict" where
  "live_trip_updates routes utcoffset feed =
     (case feed of
        Inl e \<Rightarrow> Inl e
      | Inr entities \<Rightarrow> collect_trip_updates routes utcoffset entities [])"

text \<open>The loops of lines 185-186 and 192-193.\<close>

definition assign :: "(str, str list) dict \<Rightarrow> 'a stop_scheme list \<Rightarrow> 'a stop_scheme list" where
  "assign d stops_data = map (\<lambda>s. s\<lparr>upcoming_buses := get d (stop.stop_id s) []\<rparr>) stops_data"

text \<open>
  The handler. Any exception of the \<^verbatim>\<open>try\<close> block, from the fetch to the rendering of an
  arrival time, enters the handler of line 189, which assigns from the timetable. An
  exception of \<^verbatim>\<open>get_scheduled_arrivals\<close> there leaves the handler. The result is the new
  value of \<^verbatim>\<open>stops_data\<close>, which is also what the response carries.
\<close>

definition bus_stops ::
  "table \<Rightarrow> table \<Rightarrow> host \<Rightarrow> (int \<Rightarrow> int) \<Rightarrow> row list option list \<Rightarrow> error + entity list
    \<Rightarrow> 'a stop_scheme list \<Rightarrow> error + 'a stop_scheme list" where
  "bus_stops routes trips hst utcoffset files feed stops_data =
     (case live_trip_updates routes utcoffset feed of
        Inr trip_updates \<Rightarrow> Inr (assign trip_updates stops_data)
      | Inl e \<Rightarrow>
          (case get_scheduled_arrivals routes trips hst files of
             Inl e' \<Rightarrow> Inl e'
           | Inr sched \<Rightarrow> Inr (assign sched stops_data)))"

section \<open>What the timetable and the feed contribute to a stop\<close>

text \<open>
  The definitions of this section are not part of the program. They describe, from the
  rows of the files and the entities of the feed, the lists that the theorems below
  compare the program's dictionaries with.
\<close>

subsection \<open>The timetable\<close>

text \<open>
  The rows of one file that the reader reads into the dictionaries: a row that
  \<^verbatim>\<open>time_pattern\<close> does not match is passed over, and the first row on which \<^verbatim>\<open>strptime\<close>
  raises ends the file, so that no later row of the file is read.
\<close>

fun kept_rows :: "(nat \<Rightarrow> nat option) \<Rightarrow> row list \<Rightarrow> row list" where
  "kept_rows uni [] = []"
| "kept_rows uni (r # rs) =
     (if \<not> time_pattern_match uni (row.arrival_time r) then kept_rows uni rs
      else (case strptime uni (row.arrival_time r) of
              Inl e \<Rightarrow> []
            | Inr tod \<Rightarrow> r # kept_rows uni rs))"


definition time_of_day :: "host \<Rightarrow> str \<Rightarrow> nat" where
  "time_of_day hst s = (case strptime (decimal hst) s of Inr tod \<Rightarrow> tod | Inl e \<Rightarrow> 0)"

text \<open>The test of line 95 for a row.\<close>

definition same_day :: "host \<Rightarrow> row \<Rightarrow> bool" where
  "same_day hst r = (current_time hst \<le> today_at hst (time_of_day hst (row.arrival_time r)))"

text \<open>An arrival time written with ASCII digits: the shape \<^verbatim>\<open>[0-9]{2}:[0-9]{2}:[0-9]{2}\<close>.\<close>

fun ascii_hhmmss :: "str \<Rightarrow> bool" where
  "ascii_hhmmss [h1, h2, c1, m1, m2, c2, s1, s2] =
     (ascii_digit h1 \<and> ascii_digit h2 \<and> c1 = 58 \<and> ascii_digit m1 \<and> ascii_digit m2 \<and> c2 = 58
      \<and> ascii_digit s1 \<and> ascii_digit s2)"
| "ascii_hhmmss _ = False"

text \<open>The route id that line 83 computes for a trip id.\<close>

definition resolved_route_id :: "table \<Rightarrow> str \<Rightarrow> str" where
  "resolved_route_id trips tid = get (get trips tid []) ''route_id'' (lit ''Unknown'')"

text \<open>The display string of a row, with the names its route id has in the route table.\<close>

definition row_display :: "table \<Rightarrow> table \<Rightarrow> row \<Rightarrow> str" where
  "row_display routes trips r =
     (let route_info = get routes (resolved_route_id trips (row.trip_id r))
                         [(''route_number'', lit ''Unknown''), (''route_name'', lit ''Unknown'')]
      in display (get route_info ''route_number'' (lit ''Unknown''))
           (get route_info ''route_name'' (lit ''Unknown''))
           (row.trip_id r) (row.arrival_time r))"



text \<open>What appending the list \<open>new\<close> entry by entry makes of a dictionary's value.\<close>

definition extended :: "'v list option \<Rightarrow> 'v list \<Rightarrow> 'v list option" where
  "extended old new =
     (if new = [] then old else Some ((case old of None \<Rightarrow> [] | Some xs \<Rightarrow> xs) @ new))"

text \<open>
  What line 122 makes of an entry that can be indexed: the display string of a tuple, the
  second character of a plain string.
\<close>

fun shown :: "entry \<Rightarrow> str" where
  "shown (Tuple t d) = d"
| "shown (Str s) = take 1 (drop 1 s)"

subsection \<open>The feed\<close>

text \<open>The stop-time updates of a feed, each with the trip update it belongs to, in feed order.\<close>

definition feed_updates :: "entity list \<Rightarrow> (trip_update \<times> stop_time_update) list" where
  "feed_updates entities =
     concat (map (\<lambda>e. case entity.trip_update e of
                         None \<Rightarrow> []
                       | Some tu \<Rightarrow> map (\<lambda>st. (tu, st)) (trip_update.stop_time_update tu))
                 entities)"

text \<open>The stop-time updates addressed to one stop.\<close>

definition updates_for :: "str \<Rightarrow> entity list \<Rightarrow> (trip_update \<times> stop_time_update) list" where
  "updates_for sid entities =
     filter (\<lambda>u. stop_time_update.stop_id (snd u) = sid) (feed_updates entities)"

text \<open>An epoch time that \<^verbatim>\<open>fromtimestamp\<close> accepts.\<close>

definition in_range :: "(int \<Rightarrow> int) \<Rightarrow> int \<Rightarrow> bool" where
  "in_range utcoffset t =
     (min_epoch \<le> t \<and> t \<le> max_epoch \<and> min_epoch \<le> t + utcoffset t \<and> t + utcoffset t \<le> max_epoch)"

text \<open>
  A stop-time update that line 178 can render: it has no arrival field, or
  \<^verbatim>\<open>fromtimestamp\<close> accepts what \<^verbatim>\<open>arrival.time\<close> reads.
\<close>

definition renderable :: "(int \<Rightarrow> int) \<Rightarrow> stop_time_update \<Rightarrow> bool" where
  "renderable utcoffset st =
     (case arrival st of None \<Rightarrow> True | Some ev \<Rightarrow> in_range utcoffset (event_time ev))"

text \<open>
  The last component of a live display string: \<^verbatim>\<open>N/A\<close> for an update without an arrival
  field, and otherwise the local time of day of what \<^verbatim>\<open>arrival.time\<close> reads.
\<close>

definition time_text :: "(int \<Rightarrow> int) \<Rightarrow> stop_time_update \<Rightarrow> str" where
  "time_text utcoffset st =
     (case arrival st of
        None \<Rightarrow> lit ''N/A''
      | Some ev \<Rightarrow> strftime (nat ((event_time ev + utcoffset (event_time ev)) mod 86400)))"

text \<open>The display string of one stop-time update, as lines 172-181 build it.\<close>

definition live_display :: "table \<Rightarrow> (int \<Rightarrow> int) \<Rightarrow> trip_update \<times> stop_time_update \<Rightarrow> str" where
  "live_display routes utcoffset u =
     display (get (get routes (trip_update.route_id (fst u)) []) ''route_short_name'' (lit ''Unknown''))
       (get (get routes (trip_update.route_id (fst u)) []) ''route_long_name'' (lit ''Unknown''))
       (case vehicle (fst u) of None \<Rightarrow> lit ''Unknown'' | Some v \<Rightarrow> v)
       (time_text utcoffset (snd u))"

section \<open>Example inputs\<close>

text \<open>
  The decimal digits outside ASCII, for the examples: the Arabic-Indic digits, U+0660 to
  U+0669 (code points 1632 to 1641).
\<close>

definition arabic_indic :: "nat \<Rightarrow> nat option" where
  "arabic_indic c = (if 1632 \<le> c \<and> c \<le> 1641 then Some (c - 1632) else None)"

text \<open>
  A host at 07:30:00 and one at 02:00:00, both with midnight at the instant 0; a route
  table and a trip table with one entry each; the winter offset of Asia/Nicosia.
\<close>

definition example_host :: host where
  "example_host =
     \<lparr>current_time = 27000000000, today_at = (\<lambda>s. int s * 1000000), decimal = arabic_indic\<rparr>"

definition night_host :: host where
  "night_host =
     \<lparr>current_time = 7200000000, today_at = (\<lambda>s. int s * 1000000), decimal = arabic_indic\<rparr>"

definition example_routes :: "route list option" where
  "example_routes =
     Some [\<lparr>route.route_id = lit ''1'', route_short_name = Some (lit ''10''),
            route_long_name = Some (lit ''Main'')\<rparr>]"

definition example_trips :: "trip list option" where
  "example_trips =
     Some [\<lparr>trip.trip_id = lit ''T1'', trip.route_id = lit ''1'', trip_headsign = lit ''Centre''\<rparr>]"

definition eet :: "int \<Rightarrow> int" where
  "eet t = 7200"

definition morning_rows :: "row list" where
  "morning_rows =
     [\<lparr>row.stop_id = lit ''S'', row.trip_id = lit ''T2'', arrival_time = lit ''09:00:00''\<rparr>,
      \<lparr>row.stop_id = lit ''S'', row.trip_id = lit ''T1'', arrival_time = lit ''08:00:00''\<rparr>]"

definition example_stops :: "stop list" where
  "example_stops =
     [\<lparr>stop.stop_id = lit ''S'', upcoming_buses = []\<rparr>,
      \<lparr>stop.stop_id = lit ''Z'', upcoming_buses = [lit ''10 - Main - V9 - 06:00:00'']\<rparr>]"

text \<open>Stops that carry one more field, a name.\<close>

definition named_stops :: "string stop_scheme list" where
  "named_stops =
     [\<lparr>stop.stop_id = lit ''S'', upcoming_buses = [], \<dots> = ''Square''\<rparr>,
      \<lparr>stop.stop_id = lit ''Z'', upcoming_buses = [lit ''10 - Main - V9 - 06:00:00''],
         \<dots> = ''Zoo''\<rparr>]"

text \<open>
  Feeds: one update with an arrival time; one without an arrival field; one whose arrival
  gives no time; six updates for one stop; one whose arrival time lies beyond the year
  9999.
\<close>

definition one_update_feed :: "entity list" where
  "one_update_feed =
     [\<lparr>entity.trip_update = Some \<lparr>trip_update.route_id = lit ''1'', vehicle = Some (lit ''V1''),
         stop_time_update =
           [\<lparr>stop_time_update.stop_id = lit ''S'', arrival = Some \<lparr>time = Some 1700000000\<rparr>\<rparr>]\<rparr>\<rparr>]"



definition six_updates_feed :: "entity list" where
  "six_updates_feed =
     [\<lparr>entity.trip_update = Some \<lparr>trip_update.route_id = lit ''1'', vehicle = Some (lit ''V1''),
         stop_time_update =
           [\<lparr>stop_time_update.stop_id = lit ''S'', arrival = Some \<lparr>time = Some 1700000000\<rparr>\<rparr>,
            \<lparr>stop_time_update.stop_id = lit ''S'', arrival = Some \<lparr>time = Some 1700000600\<rparr>\<rparr>,
            \<lparr>stop_time_update.stop_id = lit ''S'', arrival = Some \<lparr>time = Some 1700001200\<rparr>\<rparr>]\<rparr>\<rparr>,
      \<lparr>entity.trip_update = None\<rparr>,
      \<lparr>entity.trip_update = Some \<lparr>trip_update.route_id = lit ''2'', vehicle = None,
         stop_time_update =
           [\<lparr>stop_time_update.stop_id = lit ''S'', arrival = Some \<lparr>time = Some 1700001800\<rparr>\<rparr>,
            \<lparr>stop_time_update.stop_id = lit ''S'', arrival = Some \<lparr>time = Some 1700002400\<rparr>\<rparr>,
            \<lparr>stop_time_update.stop_id = lit ''S'', arrival = Some \<lparr>time = Some 1700003000\<rparr>\<rparr>]\<rparr>\<rparr>]"

definition far_future_feed :: "entity list" where
  "far_future_feed =
     [\<lparr>entity.trip_update = Some \<lparr>trip_update.route_id = lit ''1'', vehicle = Some (lit ''V1''),
         stop_time_update =
           [\<lparr>stop_time_update.stop_id = lit ''Z'', arrival = Some \<lparr>time = Some 1000000000000000000\<rparr>\<rparr>]\<rparr>\<rparr>]"




text \<open>
  Timetables for the host at 07:30:00: one arrival ahead and one passed; two passed; a row
  with hour 25 before a good row; a row with single digits before a good row.
\<close>

definition top_up_rows :: "row list" where
  "top_up_rows =
     [\<lparr>row.stop_id = lit ''S'', row.trip_id = lit ''T1'', arrival_time = lit ''08:00:00''\<rparr>,
      \<lparr>row.stop_id = lit ''S'', row.trip_id = lit ''T2'', arrival_time = lit ''07:00:00''\<rparr>]"

definition early_rows :: "row list" where
  "early_rows =
     [\<lparr>row.stop_id = lit ''S'', row.trip_id = lit ''T1'', arrival_time = lit ''06:00:00''\<rparr>,
      \<lparr>row.stop_id = lit ''S'', row.trip_id = lit ''T2'', arrival_time = lit ''07:00:00''\<rparr>]"

definition hour_25_rows :: "row list" where
  "hour_25_rows =
     [\<lparr>row.stop_id = lit ''S'', row.trip_id = lit ''T1'', arrival_time = lit ''25:00:00''\<rparr>,
      \<lparr>row.stop_id = lit ''S'', row.trip_id = lit ''T2'', arrival_time = lit ''08:00:00''\<rparr>]"

definition short_time_rows :: "row list" where
  "short_time_rows =
     [\<lparr>row.stop_id = lit ''S'', row.trip_id = lit ''T1'', arrival_time = lit ''9:5:3''\<rparr>,
      \<lparr>row.stop_id = lit ''S'', row.trip_id = lit ''T2'', arrival_time = lit ''08:00:00''\<rparr>]"



section \<open>Dictionaries, the reference tables and the reader\<close>

lemma map_of_append_at:
  "map_of (append_at k x d) =
     (map_of d)(k \<mapsto> (case map_of d k of None \<Rightarrow> [x] | Some xs \<Rightarrow> xs @ [x]))"
  by (auto simp: append_at_def map_of_map_default split: option.splits)

lemma append_at_entries:
  "(k', es') \<in> set (append_at k x d) \<Longrightarrow>
     (k', es') \<in> set d \<or> (k' = k \<and> (es' = [x] \<or> (\<exists>es. (k, es) \<in> set d \<and> es' = es @ [x])))"
  unfolding append_at_def by (induction d) (auto split: if_splits)

lemma extended_Nil: "extended old [] = old"
  by (simp add: extended_def)

lemma extended_Cons:
  "extended old (x # xs) = extended (Some (case old of None \<Rightarrow> [x] | Some ys \<Rightarrow> ys @ [x])) xs"
  by (simp add: extended_def split: option.splits)

lemma extended_append: "extended (extended old xs) ys = extended old (xs @ ys)"
  by (auto simp: extended_def split: option.splits)

lemma routes_dict_fold_values:
  assumes "\<forall>k info. map_of d k = Some info \<longrightarrow> (\<exists>a b. info = [(''route_number'', a), (''route_name'', b)])"
  shows "map_of (fold (\<lambda>route d. AList.update (route.route_id route)
                  [(''route_number'', (case route_short_name route of None \<Rightarrow> (lit ''Unknown'') | Some v \<Rightarrow> v)),
                   (''route_name'', (case route_long_name route of None \<Rightarrow> (lit ''Unknown'') | Some v \<Rightarrow> v))] d)
               routes d) k = Some info \<Longrightarrow> \<exists>a b. info = [(''route_number'', a), (''route_name'', b)]"
  using assms
proof (induction routes arbitrary: d)
  case Nil
  then show ?case by simp
next
  case (Cons r rs)
  show ?case
    by (rule Cons.IH[OF Cons.prems(1)[simplified]]) (use Cons.prems(2) in \<open>auto simp: update_conv'\<close>)
qed

lemma routes_dict_values:
  "map_of (routes_dict routes_data) k = Some info \<Longrightarrow> \<exists>a b. info = [(''route_number'', a), (''route_name'', b)]"
  unfolding routes_dict_def
  by (cases routes_data) (auto dest!: routes_dict_fold_values[rotated])

lemma route_info_subscript:
  "subscript (get (routes_dict routes_data) k [(''route_number'', (lit ''Unknown'')), (''route_name'', (lit ''Unknown''))]) ''route_number''
     = Inr (get (get (routes_dict routes_data) k [(''route_number'', (lit ''Unknown'')), (''route_name'', (lit ''Unknown''))]) ''route_number'' (lit ''Unknown''))"
  "subscript (get (routes_dict routes_data) k [(''route_number'', (lit ''Unknown'')), (''route_name'', (lit ''Unknown''))]) ''route_name''
     = Inr (get (get (routes_dict routes_data) k [(''route_number'', (lit ''Unknown'')), (''route_name'', (lit ''Unknown''))]) ''route_name'' (lit ''Unknown''))"
  by (auto simp: get_def subscript_def split: option.splits dest!: routes_dict_values)

lemma process_row_routes_dict:
  "process_row (routes_dict routes_data) trips hst r st =
     (if \<not> time_pattern_match (decimal hst) (row.arrival_time r) then Inr st
      else (case strptime (decimal hst) (row.arrival_time r) of
              Inl e \<Rightarrow> Inl e
            | Inr tod \<Rightarrow>
                if same_day hst r
                then Inr (st\<lparr>stop_schedule :=
                            append_at (row.stop_id r)
                              (row.arrival_time r, row_display (routes_dict routes_data) trips r)
                              (stop_schedule st)\<rparr>)
                else Inr (st\<lparr>tomorrow_buses :=
                            append_at (row.stop_id r)
                              (today_at hst (time_of_day hst (row.arrival_time r)) + timedelta_days 1,
                               row_display (routes_dict routes_data) trips r)
                              (tomorrow_buses st)\<rparr>)))"
  by (simp add: process_row_def Let_def route_info_subscript same_day_def time_of_day_def
      row_display_def resolved_route_id_def split: sum.splits)













section \<open>The resolver never raises\<close>

lemma item1_shown: "(\<And>s. e = Str s \<Longrightarrow> 1 < length s) \<Longrightarrow> item1 e = Inr (shown e)"
  by (cases e) (auto simp: take_Suc_conv_app_nth drop_Suc hd_conv_nth nth_tl take_Suc split: list.splits)

lemma items1_shown:
  "(\<And>s. Str s \<in> set es \<Longrightarrow> 1 < length s) \<Longrightarrow> items1 es = Inr (map shown es)"
  by (induction es) (simp_all add: item1_shown)

lemma project_shown:
  "(\<And>k es s. (k, es) \<in> set d \<Longrightarrow> Str s \<in> set es \<Longrightarrow> 1 < length s) \<Longrightarrow>
     project d = Inr (map (\<lambda>(k, es). (k, map shown es)) d)"
proof (induction d)
  case Nil
  show ?case by simp
next
  case (Cons p d)
  obtain k es where p: "p = (k, es)" by (cases p)
  have "items1 es = Inr (map shown es)"
    by (rule items1_shown) (use Cons.prems p in auto)
  moreover have "project d = Inr (map (\<lambda>(k, es). (k, map shown es)) d)"
    by (rule Cons.IH) (use Cons.prems in auto)
  ultimately show ?case by (simp add: p)
qed

lemma map_of_map_values:
  "map_of (map (\<lambda>(k, v). (k, f k v)) d) k = map_option (f k) (map_of d k)"
  by (induction d) auto

lemma length_display: "Suc 0 < length (display a b c d)"
  by (simp add: display_def lit_def)

lemma process_row_tomorrow_inv:
  assumes ok: "process_row routes trips hst r st = Inr st'"
    and inv: "\<And>k es e. (k, es) \<in> set (tomorrow_buses st) \<Longrightarrow> e \<in> set es \<Longrightarrow> 1 < length (snd e)"
    and mem: "(k, es) \<in> set (tomorrow_buses st')" "e \<in> set es"
  shows "1 < length (snd e)"
proof -
  consider "st' = st"
    | x where "st' = st\<lparr>stop_schedule := x\<rparr>"
    | t a b c d where "st' = st\<lparr>tomorrow_buses :=
          append_at (row.stop_id r) (t, display a b c d) (tomorrow_buses st)\<rparr>"
    using ok by (auto simp: process_row_def Let_def split: if_splits sum.splits)
  then show ?thesis
  proof cases
    case 1
    with inv mem show ?thesis by simp
  next
    case 2
    with inv mem show ?thesis by simp
  next
    case 3
    with mem have "(k, es) \<in> set (append_at (row.stop_id r) (t, display a b c d) (tomorrow_buses st))"
      by simp
    from append_at_entries[OF this]
    consider "(k, es) \<in> set (tomorrow_buses st)"
      | "es = [(t, display a b c d)]"
      | es0 where "(row.stop_id r, es0) \<in> set (tomorrow_buses st)" "es = es0 @ [(t, display a b c d)]"
      by blast
    then show ?thesis
    proof cases
      case 1
      with inv mem(2) show ?thesis by blast
    next
      case 2
      with mem(2) show ?thesis by (simp add: length_display)
    next
      case 3
      with mem(2) have "e \<in> set es0 \<or> e = (t, display a b c d)" by auto
      then show ?thesis
      proof
        assume "e \<in> set es0"
        with inv 3(1) show ?thesis by blast
      next
        assume "e = (t, display a b c d)"
        then show ?thesis by (simp add: length_display)
      qed
    qed
  qed
qed

lemma read_rows_tomorrow_inv:
  assumes "\<And>k es e. (k, es) \<in> set (tomorrow_buses st) \<Longrightarrow> e \<in> set es \<Longrightarrow> 1 < length (snd e)"
    and "(k, es) \<in> set (tomorrow_buses (snd (read_rows routes trips hst rows st)))" and "e \<in> set es"
  shows "1 < length (snd e)"
  using assms
proof (induction rows arbitrary: st)
  case Nil
  then show ?case by simp
next
  case (Cons r rs)
  show ?case
  proof (cases "process_row routes trips hst r st")
    case (Inl err)
    with Cons.prems show ?thesis by simp
  next
    case (Inr st')
    have inv': "\<And>k es e. (k, es) \<in> set (tomorrow_buses st') \<Longrightarrow> e \<in> set es \<Longrightarrow> 1 < length (snd e)"
      using process_row_tomorrow_inv[OF Inr] Cons.prems(1) by blast
    from Cons.prems(2) Inr
    have "(k, es) \<in> set (tomorrow_buses (snd (read_rows routes trips hst rs st')))" by simp
    from Cons.IH[OF inv' this Cons.prems(3)] show ?thesis .
  qed
qed

lemma read_files_tomorrow_inv:
  assumes "\<And>k es e. (k, es) \<in> set (tomorrow_buses st) \<Longrightarrow> e \<in> set es \<Longrightarrow> 1 < length (snd e)"
    and "(k, es) \<in> set (tomorrow_buses (read_files routes trips hst files st))" and "e \<in> set es"
  shows "1 < length (snd e)"
  using assms
proof (induction files arbitrary: st)
  case Nil
  then show ?case by simp
next
  case (Cons f fs)
  show ?case
  proof (cases f)
    case None
    with Cons.prems(2) have "(k, es) \<in> set (tomorrow_buses (read_files routes trips hst fs st))"
      by simp
    from Cons.IH[OF Cons.prems(1) this Cons.prems(3)] show ?thesis .
  next
    case (Some rows)
    have inv': "\<And>k es e. (k, es) \<in> set (tomorrow_buses (snd (read_rows routes trips hst rows st)))
        \<Longrightarrow> e \<in> set es \<Longrightarrow> 1 < length (snd e)"
      using read_rows_tomorrow_inv Cons.prems(1) by blast
    from Cons.prems(2) Some
    have "(k, es) \<in> set (tomorrow_buses (read_files routes trips hst fs
             (snd (read_rows routes trips hst rows st))))" by simp
    from Cons.IH[OF inv' this Cons.prems(3)] show ?thesis .
  qed
qed

lemma limit_stop_Str:
  assumes "Str s \<in> set (limit_stop tomorrow sid arrivals)"
  shows "\<exists>buses e. (sid, buses) \<in> set tomorrow \<and> e \<in> set buses \<and> s = snd e"
proof -
  from assms obtain buses where b: "map_of tomorrow sid = Some buses"
    and s: "Str s \<in> set (map (\<lambda>e. Str (snd e)) (take (5 - length (take 5 (sort arrivals))) (sort buses)))"
    by (auto simp: limit_stop_def Let_def split: option.splits if_splits dest!: in_set_takeD
        simp del: length_take)
  from s obtain e where "e \<in> set (take (5 - length (take 5 (sort arrivals))) (sort buses))" "s = snd e"
    by auto
  then have "e \<in> set buses" "s = snd e"
    by (auto dest!: in_set_takeD)
  with b show ?thesis by (blast dest: map_of_SomeD)
qed

lemma length_limit_stop: "length (limit_stop tomorrow sid arrivals) \<le> 5"
  by (simp add: limit_stop_def Let_def)

lemma get_scheduled_arrivals_total:
  "get_scheduled_arrivals routes trips hst files =
     Inr (map (\<lambda>(sid, arrivals).
                 (sid, map shown
                    (limit_stop
                       (tomorrow_buses (read_files routes trips hst files
                          \<lparr>stop_schedule = [], tomorrow_buses = []\<rparr>))
                       sid arrivals)))
            (stop_schedule (read_files routes trips hst files
               \<lparr>stop_schedule = [], tomorrow_buses = []\<rparr>)))"
proof -
  let ?st = "read_files routes trips hst files \<lparr>stop_schedule = [], tomorrow_buses = []\<rparr>"
  let ?limited = "map (\<lambda>(sid, arrivals). (sid, limit_stop (tomorrow_buses ?st) sid arrivals))
                    (stop_schedule ?st)"
  have inv: "\<And>k es e. (k, es) \<in> set (tomorrow_buses ?st) \<Longrightarrow> e \<in> set es \<Longrightarrow> 1 < length (snd e)"
    by (rule read_files_tomorrow_inv[where st="\<lparr>stop_schedule = [], tomorrow_buses = []\<rparr>"]) auto
  have "project ?limited = Inr (map (\<lambda>(k, es). (k, map shown es)) ?limited)"
  proof (rule project_shown)
    fix k es s
    assume "(k, es) \<in> set ?limited" and s: "Str s \<in> set es"
    then obtain arrivals where "es = limit_stop (tomorrow_buses ?st) k arrivals" by auto
    with s limit_stop_Str obtain buses e where "(k, buses) \<in> set (tomorrow_buses ?st)"
      "e \<in> set buses" "s = snd e" by blast
    with inv show "1 < length s" by blast
  qed
  then show ?thesis
    by (simp add: get_scheduled_arrivals_def Let_def case_prod_unfold comp_def)
qed

section \<open>The live branch\<close>

lemma arrival_string_eq:
  "arrival_string utcoffset st =
     (if renderable utcoffset st then Inr (time_text utcoffset st) else Inl OverflowError)"
  by (auto simp: arrival_string_def renderable_def time_text_def fromtimestamp_def in_range_def
      Let_def split: option.splits)

lemma add_stop_times_ok:
  "list_all (renderable utcoffset) sts \<Longrightarrow>
     \<exists>d'. add_stop_times utcoffset rn rname vid sts d = Inr d'"
  by (induction sts arbitrary: d) (simp_all add: arrival_string_eq)

lemma add_stop_times_fails:
  "\<not> list_all (renderable utcoffset) sts \<Longrightarrow>
     add_stop_times utcoffset rn rname vid sts d = Inl OverflowError"
  by (induction sts arbitrary: d) (simp_all add: arrival_string_eq)

lemma add_stop_times_lookup:
  "add_stop_times utcoffset rn rname vid sts d = Inr d' \<Longrightarrow>
     map_of d' sid =
       extended (map_of d sid)
         (map (\<lambda>st. display rn rname vid (time_text utcoffset st))
            (filter (\<lambda>st. stop_time_update.stop_id st = sid) sts))"
proof (induction sts arbitrary: d)
  case Nil
  then show ?case by (simp add: extended_Nil)
next
  case (Cons st sts)
  from Cons.prems have r: "renderable utcoffset st"
    by (auto simp: arrival_string_eq split: if_splits)
  with Cons.prems have "add_stop_times utcoffset rn rname vid sts
      (append_at (stop_time_update.stop_id st) (display rn rname vid (time_text utcoffset st)) d) = Inr d'"
    by (simp add: arrival_string_eq)
  from Cons.IH[OF this] show ?case
    by (simp add: map_of_append_at extended_Cons)
qed

lemma feed_updates_simps:
  "feed_updates [] = []"
  "feed_updates (e # es) =
     (case entity.trip_update e of
        None \<Rightarrow> []
      | Some tu \<Rightarrow> map (\<lambda>st. (tu, st)) (trip_update.stop_time_update tu)) @ feed_updates es"
  by (simp_all add: feed_updates_def)

lemma list_all_pairs:
  "list_all (\<lambda>u. Q (snd u)) (map (Pair tu) xs) = list_all Q xs"
  by (induction xs) auto

lemma collect_trip_updates_ok:
  "list_all (\<lambda>u. renderable utcoffset (snd u)) (feed_updates es) \<Longrightarrow>
     \<exists>d'. collect_trip_updates routes utcoffset es d = Inr d'"
proof (induction es arbitrary: d)
  case Nil
  show ?case by simp
next
  case (Cons e es)
  show ?case
  proof (cases "entity.trip_update e")
    case None
    with Cons show ?thesis by (simp add: feed_updates_simps)
  next
    case (Some tu)
    with Cons.prems have a: "list_all (renderable utcoffset) (trip_update.stop_time_update tu)"
      and b: "list_all (\<lambda>u. renderable utcoffset (snd u)) (feed_updates es)"
      by (simp_all add: feed_updates_simps list_all_pairs)
    from add_stop_times_ok[OF a] obtain d1 where
      "add_stop_times utcoffset
         (get (get routes (trip_update.route_id tu) []) ''route_short_name'' (lit ''Unknown''))
         (get (get routes (trip_update.route_id tu) []) ''route_long_name'' (lit ''Unknown''))
         (case vehicle tu of None \<Rightarrow> (lit ''Unknown'') | Some v \<Rightarrow> v)
         (trip_update.stop_time_update tu) d = Inr d1"
      by blast
    with Some Cons.IH[OF b, of d1] show ?thesis by (simp add: Let_def)
  qed
qed

lemma collect_trip_updates_fails:
  "\<not> list_all (\<lambda>u. renderable utcoffset (snd u)) (feed_updates es) \<Longrightarrow>
     collect_trip_updates routes utcoffset es d = Inl OverflowError"
proof (induction es arbitrary: d)
  case Nil
  then show ?case by (simp add: feed_updates_simps)
next
  case (Cons e es)
  show ?case
  proof (cases "entity.trip_update e")
    case None
    with Cons show ?thesis by (simp add: feed_updates_simps)
  next
    case (Some tu)
    show ?thesis
    proof (cases "list_all (renderable utcoffset) (trip_update.stop_time_update tu)")
      case True
      with Cons.prems Some have b: "\<not> list_all (\<lambda>u. renderable utcoffset (snd u)) (feed_updates es)"
        by (simp add: feed_updates_simps list_all_pairs)
      from add_stop_times_ok[OF True] obtain d1 where
        "add_stop_times utcoffset
           (get (get routes (trip_update.route_id tu) []) ''route_short_name'' (lit ''Unknown''))
           (get (get routes (trip_update.route_id tu) []) ''route_long_name'' (lit ''Unknown''))
           (case vehicle tu of None \<Rightarrow> (lit ''Unknown'') | Some v \<Rightarrow> v)
           (trip_update.stop_time_update tu) d = Inr d1"
        by blast
      with Some Cons.IH[OF b, of d1] show ?thesis by (simp add: Let_def)
    next
      case False
      from add_stop_times_fails[OF False] Some show ?thesis by (simp add: Let_def)
    qed
  qed
qed

lemma updates_for_simps:
  "updates_for sid [] = []"
  "updates_for sid (e # es) =
     (case entity.trip_update e of
        None \<Rightarrow> []
      | Some tu \<Rightarrow> map (\<lambda>st. (tu, st))
                    (filter (\<lambda>st. stop_time_update.stop_id st = sid) (trip_update.stop_time_update tu)))
     @ updates_for sid es"
  by (simp_all add: updates_for_def feed_updates_simps filter_map comp_def split: option.splits)

lemma collect_trip_updates_lookup:
  "collect_trip_updates routes utcoffset es d = Inr d' \<Longrightarrow>
     map_of d' sid =
       extended (map_of d sid) (map (live_display routes utcoffset) (updates_for sid es))"
proof (induction es arbitrary: d)
  case Nil
  then show ?case by (simp add: updates_for_simps extended_Nil)
next
  case (Cons e es)
  show ?case
  proof (cases "entity.trip_update e")
    case None
    with Cons show ?thesis by (simp add: updates_for_simps)
  next
    case (Some tu)
    with Cons.prems obtain d1 where
      d1: "add_stop_times utcoffset
         (get (get routes (trip_update.route_id tu) []) ''route_short_name'' (lit ''Unknown''))
         (get (get routes (trip_update.route_id tu) []) ''route_long_name'' (lit ''Unknown''))
         (case vehicle tu of None \<Rightarrow> (lit ''Unknown'') | Some v \<Rightarrow> v)
         (trip_update.stop_time_update tu) d = Inr d1"
      and rest: "collect_trip_updates routes utcoffset es d1 = Inr d'"
      by (auto simp: Let_def split: sum.splits)
    from Cons.IH[OF rest] add_stop_times_lookup[OF d1, of sid] Some show ?thesis
      by (simp add: updates_for_simps extended_append live_display_def comp_def)
  qed
qed

lemma live_lookup:
  assumes "live_trip_updates routes utcoffset (Inr entities) = Inr d"
  shows "get d sid [] = map (live_display routes utcoffset) (updates_for sid entities)"
  using collect_trip_updates_lookup[of routes utcoffset entities "[]" d sid] assms
  by (simp add: live_trip_updates_def get_def extended_def)

lemma routes_dict_other_key:
  "key \<noteq> ''route_number'' \<Longrightarrow> key \<noteq> ''route_name'' \<Longrightarrow>
     get (get (routes_dict rd) k []) key (lit ''Unknown'') = (lit ''Unknown'')"
  by (auto simp: get_def split: option.splits dest!: routes_dict_values)



lemma ascii_digit_two_digits: "two_digits n = [a, b] \<Longrightarrow> ascii_digit a \<and> ascii_digit b"
proof -
  have "n div 10 mod 10 \<le> 9" "n mod 10 \<le> 9" by arith+
  then show "two_digits n = [a, b] \<Longrightarrow> ascii_digit a \<and> ascii_digit b"
    by (auto simp: two_digits_def ascii_digit_def)
qed

lemma ascii_hhmmss_strftime: "ascii_hhmmss (strftime s)"
proof -
  obtain a b where ab: "two_digits (s div 3600) = [a, b]" by (simp add: two_digits_def)
  obtain c d where cd: "two_digits (s div 60 mod 60) = [c, d]" by (simp add: two_digits_def)
  obtain e f where ef: "two_digits (s mod 60) = [e, f]" by (simp add: two_digits_def)
  from ascii_digit_two_digits[OF ab] ascii_digit_two_digits[OF cd] ascii_digit_two_digits[OF ef]
  show ?thesis
    by (simp add: strftime_def ab cd ef lit_def)
qed

lemma digit_ascii: "ascii_digit c \<Longrightarrow> digit uni c"
  by (simp add: digit_def decimal_value_def)

lemma hhmmss_ascii: "ascii_hhmmss s \<Longrightarrow> hhmmss uni s"
  by (rule ascii_hhmmss.elims(2)) (auto simp: digit_ascii)

lemma hhmmss_strftime: "hhmmss uni (strftime s)"
  by (rule hhmmss_ascii) (rule ascii_hhmmss_strftime)


lemma live_trip_updates_fails:
  "\<not> list_all (\<lambda>u. renderable utcoffset (snd u)) (feed_updates entities) \<Longrightarrow>
     live_trip_updates routes utcoffset (Inr entities) = Inl OverflowError"
  by (simp add: live_trip_updates_def collect_trip_updates_fails)

lemma bus_stops_live:
  assumes "list_all (\<lambda>u. renderable utcoffset (snd u)) (feed_updates entities)"
  shows "bus_stops routes trips hst utcoffset files (Inr entities) stops_data =
     Inr (map (\<lambda>s. s\<lparr>upcoming_buses :=
                 map (live_display routes utcoffset) (updates_for (stop.stop_id s) entities)\<rparr>)
            stops_data)"
proof -
  from collect_trip_updates_ok[OF assms, of routes "[]"]
  obtain d where d: "live_trip_updates routes utcoffset (Inr entities) = Inr d"
    by (auto simp: live_trip_updates_def)
  show ?thesis
    by (simp add: bus_stops_def d assign_def live_lookup[OF d])
qed


section \<open>The fallback branch\<close>

lemma length_scheduled:
  "get_scheduled_arrivals routes trips hst files = Inr sched \<Longrightarrow> length (get sched sid []) \<le> 5"
  by (auto simp: get_scheduled_arrivals_total get_def map_of_map_values length_limit_stop
      split: option.splits)

lemma bus_stops_fallback:
  "live_trip_updates routes utcoffset feed = Inl e \<Longrightarrow>
     \<exists>sched. get_scheduled_arrivals routes trips hst files = Inr sched \<and>
       bus_stops routes trips hst utcoffset files feed stops_data = Inr (assign sched stops_data)"
  by (simp add: bus_stops_def get_scheduled_arrivals_total)


section \<open>What the resolver returns for a stop\<close>





section \<open>The rows read, and the order of time strings\<close>













lemma kept_rows_no_raise:
  assumes "\<And>r. r \<in> set rows \<Longrightarrow> time_pattern_match uni (row.arrival_time r) \<Longrightarrow>
             \<exists>t. strptime uni (row.arrival_time r) = Inr t"
  shows "kept_rows uni rows = filter (\<lambda>r. time_pattern_match uni (row.arrival_time r)) rows"
  using assms
proof (induction rows)
  case Nil
  show ?case by simp
next
  case (Cons x rows)
  have ih: "kept_rows uni rows = filter (\<lambda>r. time_pattern_match uni (row.arrival_time r)) rows"
    by (rule Cons.IH) (use Cons.prems in auto)
  show ?case
  proof (cases "time_pattern_match uni (row.arrival_time x)")
    case False
    with ih show ?thesis by simp
  next
    case True
    with Cons.prems[of x] obtain t where "strptime uni (row.arrival_time x) = Inr t" by auto
    with True ih show ?thesis by simp
  qed
qed




section \<open>The claims\<close>

lemmas schedule_eval =
  get_scheduled_arrivals_def process_row_def time_pattern_match_def strptime_def digit_def
  decimal_value_def ascii_digit_def get_def subscript_def display_def append_at_def limit_stop_def
  timedelta_days_def Let_def routes_dict_def trips_dict_def example_host_def night_host_def
  example_routes_def example_trips_def arabic_indic_def lit_def

lemmas live_eval =
  bus_stops_def live_trip_updates_def assign_def arrival_string_def event_time_def
  fromtimestamp_def strftime_def two_digits_def min_epoch_def max_epoch_def eet_def get_def
  display_def append_at_def Let_def routes_dict_def example_routes_def lit_def


subsection \<open>C1: the length of a stop's list\<close>

text \<open>
  C1, as amended. A request returns. When the feed is unavailable, or an arrival time of
  the feed cannot be rendered, every stop's \<open>upcoming_buses\<close> has at most 5 entries (the
  fallback path). When the feed is decoded and every arrival time in it can be rendered
  (the live path), the list has exactly one entry for each stop-time update of the feed
  that names the stop, whatever their number.
\<close>

theorem upcoming_buses_length:
  assumes "i < length stops_data"
  shows "\<exists>stops'. bus_stops routes trips hst utcoffset files feed stops_data = Inr stops' \<and>
     (case feed of
        Inl e \<Rightarrow> length (upcoming_buses (stops' ! i)) \<le> 5
      | Inr entities \<Rightarrow>
          if list_all (\<lambda>u. renderable utcoffset (snd u)) (feed_updates entities)
          then length (upcoming_buses (stops' ! i)) =
                 length (updates_for (stop.stop_id (stops_data ! i)) entities)
          else length (upcoming_buses (stops' ! i)) \<le> 5)"
proof (cases feed)
  case (Inl e)
  then have "live_trip_updates routes utcoffset feed = Inl e"
    by (simp add: live_trip_updates_def)
  from bus_stops_fallback[OF this, of trips hst files stops_data] assms Inl
  show ?thesis by (auto simp: assign_def length_scheduled)
next
  case (Inr entities)
  show ?thesis
  proof (cases "list_all (\<lambda>u. renderable utcoffset (snd u)) (feed_updates entities)")
    case True
    from bus_stops_live[OF True, of routes trips hst files stops_data] assms Inr True
    show ?thesis by simp
  next
    case False
    from bus_stops_fallback[OF live_trip_updates_fails[OF False], of routes trips hst files stops_data]
      assms Inr False
    show ?thesis by (auto simp: assign_def length_scheduled)
  qed
qed

theorem upcoming_buses_length_witness:
  "\<exists>stops'. bus_stops (routes_dict example_routes) (trips_dict example_trips) example_host eet
       [Some morning_rows] (Inl RequestException) example_stops = Inr stops' \<and>
     length (upcoming_buses (stops' ! 0)) \<le> 5"
  using upcoming_buses_length[of 0 example_stops "routes_dict example_routes"
      "trips_dict example_trips" example_host eet "[Some morning_rows]" "Inl RequestException"]
  by (simp add: example_stops_def)

text \<open>
  C1 as stated fails on the live path: six stop-time updates for the stop \<open>S\<close> give it a
  list of six entries.
\<close>

theorem live_list_of_six:
  "bus_stops (routes_dict example_routes) (trips_dict example_trips) example_host eet
     [Some morning_rows] (Inr six_updates_feed) example_stops =
   Inr [\<lparr>stop.stop_id = lit ''S'',
          upcoming_buses =
            [lit ''Unknown - Unknown - V1 - 00:13:20'', lit ''Unknown - Unknown - V1 - 00:23:20'',
             lit ''Unknown - Unknown - V1 - 00:33:20'', lit ''Unknown - Unknown - Unknown - 00:43:20'',
             lit ''Unknown - Unknown - Unknown - 00:53:20'', lit ''Unknown - Unknown - Unknown - 01:03:20'']\<rparr>,
        \<lparr>stop.stop_id = lit ''Z'', upcoming_buses = []\<rparr>]"
  by (simp add: live_eval six_updates_feed_def example_stops_def)

subsection \<open>C2: fewer than five arrivals today\<close>

text \<open>
  C2. The claim asks that a stop with fewer than 5 same-day arrivals, also one with none,
  have its list filled with the earliest next-day arrivals, each a display string. With
  one arrival ahead (T1 at 08:00:00) and one passed (T2 at 07:00:00) the stop's list is
  the display string of T1 followed by \<open>n\<close>, the second character of the display string
  \<open>Unknown - Unknown - T2 - 07:00:00\<close>: line 118 already appends the display strings of
  tomorrow's entries and line 122 indexes them once more. With both arrivals passed the
  stop is not a key of \<^verbatim>\<open>stop_schedule\<close>, the loop of line 112 does not visit it, and it has
  no list at all.
\<close>

theorem tomorrow_top_up_defects:
  "get_scheduled_arrivals (routes_dict example_routes) (trips_dict example_trips) example_host
     [Some top_up_rows] =
   Inr [(lit ''S'', [lit ''10 - Main - T1 - 08:00:00'', lit ''n''])] \<and>
   get_scheduled_arrivals (routes_dict example_routes) (trips_dict example_trips) example_host
     [Some early_rows] = Inr []"
  by (simp add: schedule_eval top_up_rows_def early_rows_def)

subsection \<open>C3: an unavailable feed\<close>

text \<open>
  C3. Whenever the real-time feed cannot be fetched or decoded, the handler returns, and
  every stop's \<open>upcoming_buses\<close> is what \<open>get_scheduled_arrivals\<close> holds for that stop's
  id at the same clock (the empty list when it holds nothing): all stops are assigned from
  that one dictionary, none from live data.
\<close>

theorem feed_unavailable_falls_back:
  assumes "feed = Inl e"
  shows "\<exists>sched. get_scheduled_arrivals routes trips hst files = Inr sched \<and>
           bus_stops routes trips hst utcoffset files feed stops_data =
             Inr (map (\<lambda>s. s\<lparr>upcoming_buses := get sched (stop.stop_id s) []\<rparr>) stops_data)"
  using assms
  by (simp add: bus_stops_def live_trip_updates_def assign_def get_scheduled_arrivals_total)

theorem feed_unavailable_falls_back_witness:
  "bus_stops (routes_dict example_routes) (trips_dict example_trips) example_host eet
     [Some morning_rows] (Inl RequestException) example_stops =
   Inr [\<lparr>stop.stop_id = lit ''S'',
          upcoming_buses = [lit ''10 - Main - T1 - 08:00:00'', lit ''Unknown - Unknown - T2 - 09:00:00'']\<rparr>,
        \<lparr>stop.stop_id = lit ''Z'', upcoming_buses = []\<rparr>]"
proof -
  have sched: "get_scheduled_arrivals (routes_dict example_routes) (trips_dict example_trips)
      example_host [Some morning_rows] =
    Inr [(lit ''S'', [lit ''10 - Main - T1 - 08:00:00'', lit ''Unknown - Unknown - T2 - 09:00:00''])]"
    by (simp add: schedule_eval morning_rows_def)
  from feed_unavailable_falls_back[of "Inl RequestException" RequestException
      "routes_dict example_routes" "trips_dict example_trips" example_host "[Some morning_rows]"
      eet example_stops] sched
  show ?thesis by (simp add: example_stops_def get_def lit_def)
qed

subsection \<open>C4: rows with a malformed arrival time\<close>

text \<open>
  C4. The claim asks that a row whose arrival time is no time of day be dropped and the
  rest of its file be read. The time \<open>25:00:00\<close> passes \<^verbatim>\<open>time_pattern\<close>, \<^verbatim>\<open>strptime\<close>
  raises on it, and the handler of line 108, which encloses the loop, ends the file: the
  good row after it is lost. The time \<open>9:5:3\<close> fails \<^verbatim>\<open>time_pattern\<close>, and the good row
  after it is read.
\<close>

theorem hour_25_ends_the_file:
  "get_scheduled_arrivals (routes_dict example_routes) (trips_dict example_trips) example_host
     [Some hour_25_rows] = Inr [] \<and>
   get_scheduled_arrivals (routes_dict example_routes) (trips_dict example_trips) example_host
     [Some short_time_rows] = Inr [(lit ''S'', [lit ''Unknown - Unknown - T2 - 08:00:00''])]"
  by (simp add: schedule_eval hour_25_rows_def short_time_rows_def)

text \<open>
  In general: a row that \<^verbatim>\<open>time_pattern\<close> does not match is passed over and the reading
  goes on; a row that it matches and on which \<^verbatim>\<open>strptime\<close> raises ends the reading of its
  file, whatever rows follow.
\<close>

lemma unmatched_row_skipped:
  "\<not> time_pattern_match (decimal hst) (row.arrival_time r) \<Longrightarrow>
     read_rows routes trips hst (r # rs) st = read_rows routes trips hst rs st"
  by (simp add: process_row_def)

lemma unparsed_row_ends_file:
  "time_pattern_match (decimal hst) (row.arrival_time r) \<Longrightarrow>
     strptime (decimal hst) (row.arrival_time r) = Inl e \<Longrightarrow>
     read_rows (routes_dict rd) trips hst (r # rs) st = (Some e, st)"
  by (simp add: process_row_routes_dict)

subsection \<open>C5: five or more arrivals today\<close>



subsection \<open>C6: route names on the live path\<close>

text \<open>
  C6. The claim asks that a trip update whose route id is in the route table be displayed
  with that route's names. The live branch reads the keys \<^verbatim>\<open>route_short_name\<close> and
  \<^verbatim>\<open>route_long_name\<close>, which the values of \<open>routes_dict\<close> do not have (they have
  \<^verbatim>\<open>route_number\<close> and \<^verbatim>\<open>route_name\<close>): the route \<open>1\<close> is in the table with the names
  \<open>10\<close> and \<open>Main\<close>, and its trip update is displayed as \<open>Unknown - Unknown\<close>.
\<close>

theorem live_names_unknown_for_known_route:
  "map_of (routes_dict example_routes) (lit ''1'') =
     Some [(''route_number'', lit ''10''), (''route_name'', lit ''Main'')] \<and>
   bus_stops (routes_dict example_routes) (trips_dict example_trips) example_host eet
     [] (Inr one_update_feed) example_stops =
   Inr [\<lparr>stop.stop_id = lit ''S'', upcoming_buses = [lit ''Unknown - Unknown - V1 - 00:13:20'']\<rparr>,
        \<lparr>stop.stop_id = lit ''Z'', upcoming_buses = []\<rparr>]"
  by (simp add: live_eval one_update_feed_def example_stops_def)

text \<open>
  The same holds for every route table that \<open>routes_dict\<close> builds and every stop-time
  update: the names of a live display string are always the sentinel.
\<close>

lemma live_names_always_unknown:
  "live_display (routes_dict rd) utcoffset u =
     display (lit ''Unknown'') (lit ''Unknown'') (case vehicle (fst u) of None \<Rightarrow> lit ''Unknown'' | Some v \<Rightarrow> v)
       (time_text utcoffset (snd u))"
  by (simp add: live_display_def routes_dict_other_key)

subsection \<open>C7: one entry per stop-time update\<close>



subsection \<open>C8: a stop without trip updates\<close>

text \<open>
  C8, as amended. When the feed is fetched and decoded and every arrival time in it can
  be rendered, a stop that no stop-time update of the feed names receives the empty list,
  whatever the timetable holds for it.
\<close>

theorem no_updates_empty_list:
  assumes "list_all (\<lambda>u. renderable utcoffset (snd u)) (feed_updates entities)"
    and "i < length stops_data"
    and "updates_for (stop.stop_id (stops_data ! i)) entities = []"
  shows "\<exists>stops'. bus_stops routes trips hst utcoffset files (Inr entities) stops_data = Inr stops' \<and>
     upcoming_buses (stops' ! i) = []"
  using bus_stops_live[OF assms(1), of routes trips hst files stops_data] assms(2,3)
  by simp

theorem no_updates_empty_list_witness:
  "\<exists>stops'. bus_stops (routes_dict example_routes) (trips_dict example_trips) example_host eet
       [Some morning_rows] (Inr one_update_feed) example_stops = Inr stops' \<and>
     upcoming_buses (stops' ! 1) = []"
  using no_updates_empty_list[of eet one_update_feed 1 example_stops
      "routes_dict example_routes" "trips_dict example_trips" example_host "[Some morning_rows]"]
  by (simp add: example_stops_def one_update_feed_def feed_updates_def updates_for_def
      renderable_def event_time_def in_range_def min_epoch_def max_epoch_def eet_def lit_def)

text \<open>
  C8 as stated fails: the feed below is fetched and decoded, and no update in it names the
  stop \<open>S\<close>, but its one arrival time cannot be rendered, the handler of line 189 takes
  over, and \<open>S\<close> receives its timetable entries.
\<close>

theorem schedule_after_decoded_feed:
  "bus_stops (routes_dict example_routes) (trips_dict example_trips) example_host eet
     [Some morning_rows] (Inr far_future_feed) example_stops =
   Inr [\<lparr>stop.stop_id = lit ''S'',
          upcoming_buses = [lit ''10 - Main - T1 - 08:00:00'', lit ''Unknown - Unknown - T2 - 09:00:00'']\<rparr>,
        \<lparr>stop.stop_id = lit ''Z'', upcoming_buses = []\<rparr>]"
proof -
  have sched: "get_scheduled_arrivals (routes_dict example_routes) (trips_dict example_trips)
      example_host [Some morning_rows] =
    Inr [(lit ''S'', [lit ''10 - Main - T1 - 08:00:00'', lit ''Unknown - Unknown - T2 - 09:00:00''])]"
    by (simp add: schedule_eval morning_rows_def)
  have "live_trip_updates (routes_dict example_routes) eet (Inr far_future_feed) = Inl OverflowError"
    by (simp add: live_trip_updates_def far_future_feed_def arrival_string_def event_time_def
        fromtimestamp_def min_epoch_def max_epoch_def)
  with sched show ?thesis
    by (simp add: bus_stops_def assign_def example_stops_def get_def lit_def)
qed

subsection \<open>C9: unknown trips and routes\<close>




subsection \<open>C10: the frame of a request\<close>

text \<open>
  C10. On the live path and on the fallback path alike, a request returns the stop
  records in the same number and order, each with its \<open>stop_id\<close> and every field other
  than \<open>upcoming_buses\<close> unchanged.
\<close>

theorem bus_stops_frame:
  "\<exists>stops'. bus_stops routes trips hst utcoffset files feed stops_data = Inr stops' \<and>
      length stops' = length stops_data \<and>
      map stop.stop_id stops' = map stop.stop_id stops_data \<and>
      map stop.more stops' = map stop.more stops_data"
  by (cases "live_trip_updates routes utcoffset feed")
     (simp_all add: bus_stops_def assign_def get_scheduled_arrivals_total comp_def)

theorem bus_stops_frame_witness:
  "\<exists>stops'. bus_stops (routes_dict example_routes) (trips_dict example_trips) example_host eet
       [Some morning_rows] (Inr []) named_stops = Inr stops' \<and>
      length stops' = 2 \<and>
      map stop.stop_id stops' = [lit ''S'', lit ''Z''] \<and>
      map stop.more stops' = [''Square'', ''Zoo'']"
  using bus_stops_frame[of "routes_dict example_routes" "trips_dict example_trips" example_host eet
      "[Some morning_rows]" "Inr []" named_stops]
  by (simp add: named_stops_def numeral_2_eq_2)

end
